theory Spec2Isabelle
  imports Complex_Main "HOL-Library.Sublist"
begin

section \<open>JavaScript values\<close>

text \<open>
  The component receives untyped JSON (\<^verbatim>\<open>const result = await response.json()\<close>, of type
  \<^verbatim>\<open>any\<close>) and stores parts of it in its state unchecked, so the state fields hold
  JavaScript values. A finite number is the rational it denotes; \<open>JInf\<close> is an infinity
  (what \<^verbatim>\<open>JSON.parse\<close> makes of an out-of-range literal), its flag the sign.
  \<open>JObj\<close> lists the own properties of a parsed object, each key once.
\<close>

datatype jsval =
    JUndefined
  | JNull
  | JBool bool
  | JNum rat
  | JInf bool
  | JStr string
  | JArr "jsval list"
  | JObj "(string \<times> jsval) list"

text \<open>What \<^verbatim>\<open>if (v)\<close>, \<^verbatim>\<open>!v\<close>, \<^verbatim>\<open>v && ...\<close> and \<^verbatim>\<open>v || ...\<close> test.\<close>

fun truthy :: "jsval \<Rightarrow> bool" where
  "truthy JUndefined = False"
| "truthy JNull = False"
| "truthy (JBool b) = b"
| "truthy (JNum q) = (q \<noteq> 0)"
| "truthy (JInf neg) = True"
| "truthy (JStr s) = (s \<noteq> [])"
| "truthy (JArr vs) = True"
| "truthy (JObj kvs) = True"

text \<open>\<^verbatim>\<open>a || b\<close>.\<close>

definition js_or :: "jsval \<Rightarrow> jsval \<Rightarrow> jsval" where
  "js_or a b = (if truthy a then a else b)"

datatype exn = TypeError

text \<open>
  \<^verbatim>\<open>v.k\<close> for the property names the component reads (\<^verbatim>\<open>success\<close>, \<^verbatim>\<open>recommendation\<close>,
  \<^verbatim>\<open>provider\<close>, \<^verbatim>\<open>error\<close>, \<^verbatim>\<open>usage\<close> in the handlers; \<^verbatim>\<open>daily\<close>, \<^verbatim>\<open>used\<close>,
  \<^verbatim>\<open>limit\<close>, \<^verbatim>\<open>percentage\<close> in the render): reading a property of \<^verbatim>\<open>null\<close> or
  \<^verbatim>\<open>undefined\<close> throws, an object gives its own property or \<^verbatim>\<open>undefined\<close>, and a
  boolean, number, string or array has none of these names.
\<close>

fun get_prop :: "jsval \<Rightarrow> string \<Rightarrow> exn + jsval" where
  "get_prop JUndefined k = Inl TypeError"
| "get_prop JNull k = Inl TypeError"
| "get_prop (JObj kvs) k = Inr (case map_of kvs k of None \<Rightarrow> JUndefined | Some v \<Rightarrow> v)"
| "get_prop (JBool b) k = Inr JUndefined"
| "get_prop (JNum q) k = Inr JUndefined"
| "get_prop (JInf neg) k = Inr JUndefined"
| "get_prop (JStr s) k = Inr JUndefined"
| "get_prop (JArr vs) k = Inr JUndefined"

section \<open>The environment of the component\<close>

text \<open>A \<^verbatim>\<open>File\<close> as far as the component reads it: \<^verbatim>\<open>file.type\<close> and \<^verbatim>\<open>file.size\<close>.\<close>

record jsfile =
  ftype :: string
  fsize :: nat

text \<open>
  A call of \<^verbatim>\<open>fetch\<close>: the URL, and for the POST the file appended to the form data.
\<close>

datatype request = GET string | POST string jsfile

text \<open>
  What \<^verbatim>\<open>await fetch(...)\<close> followed by \<^verbatim>\<open>await response.json()\<close> comes back with:
  either one of the two promises rejects (no connection, a body that is not JSON), or
  the parsed body.
\<close>

datatype response = Rejected | Json jsval

text \<open>
  The continuations the component leaves behind: a \<^verbatim>\<open>FileReader\<close> whose \<^verbatim>\<open>onload\<close> is
  set, \<^verbatim>\<open>fetchUsageStats\<close> called on mount and waiting for its response,
  \<^verbatim>\<open>analyzeSpot\<close> waiting for the response of its POST, and \<^verbatim>\<open>analyzeSpot\<close> waiting
  at \<^verbatim>\<open>await fetchUsageStats()\<close>.
\<close>

datatype task = FileRead | UsageFetch | AnalyzeFetch | AnalyzeUsage

text \<open>
  A handler either runs to its end, or returns with a continuation scheduled; both
  carry the state it leaves.
\<close>

datatype 'a sched = Finished 'a | Waiting task 'a

fun state_of :: "'a sched \<Rightarrow> 'a" where
  "state_of (Finished s) = s"
| "state_of (Waiting t s) = s"

section \<open>The state of SpotAnalyzer\<close>

text \<open>
  The seven \<^verbatim>\<open>useState\<close> cells under their names, the value of the file input behind
  \<^verbatim>\<open>fileInputRef\<close> (\<open>None\<close> while \<^verbatim>\<open>fileInputRef.current\<close> is null), and two logs
  of what the component did to the outside: the \<^verbatim>\<open>fetch\<close> calls it issued, oldest
  first, and the messages it passed to \<^verbatim>\<open>console.error\<close>.
\<close>

record state =
  selectedImage :: jsval
  selectedFile :: "jsfile option"
  analysis :: jsval
  loading :: bool
  error :: jsval
  usageStats :: jsval
  provider :: jsval
  fileInputValue :: "string option"
  requests :: "request list"
  console :: "string list"

definition initial_state :: state where
  "initial_state =
     \<lparr>selectedImage = JNull, selectedFile = None, analysis = JNull, loading = False,
      error = JNull, usageStats = JNull, provider = JStr [],
      fileInputValue = Some [], requests = [], console = []\<rparr>"

section \<open>Image intake\<close>

text \<open>
  \<^verbatim>\<open>handleImageUpload\<close>, given \<^verbatim>\<open>event.target.files?.[0]\<close>. The two validations return
  early with the error cell set; a valid file is stored and handed to a
  \<^verbatim>\<open>FileReader\<close>, whose \<^verbatim>\<open>onload\<close> runs later.
\<close>

definition handleImageUpload :: "jsfile option \<Rightarrow> state \<Rightarrow> state sched" where
  "handleImageUpload chosen s =
     (case chosen of
        None \<Rightarrow> Finished s
      | Some f \<Rightarrow>
          if \<not> prefix ''image/'' (ftype f) then
            Finished (s\<lparr>error := JStr ''Please select a valid image file''\<rparr>)
          else if fsize f > 10 * 1024 * 1024 then
            Finished (s\<lparr>error := JStr ''Image too large. Please select an image under 10MB''\<rparr>)
          else
            Waiting FileRead (s\<lparr>error := JNull, selectedFile := Some f\<rparr>))"

text \<open>\<^verbatim>\<open>reader.onload\<close>, given \<^verbatim>\<open>e.target?.result\<close>.\<close>

definition reader_onload :: "jsval \<Rightarrow> state \<Rightarrow> state" where
  "reader_onload result s = s\<lparr>selectedImage := result, analysis := JNull\<rparr>"

text \<open>\<^verbatim>\<open>resetAnalyzer\<close>.\<close>

definition resetAnalyzer :: "state \<Rightarrow> state" where
  "resetAnalyzer s =
     s\<lparr>selectedImage := JNull, selectedFile := None, analysis := JNull, error := JNull,
       provider := JStr [],
       fileInputValue := (case fileInputValue s of None \<Rightarrow> None | Some v \<Rightarrow> Some [])\<rparr>"

section \<open>Usage tracker\<close>

text \<open>
  \<^verbatim>\<open>fetchUsageStats\<close> up to its first \<^verbatim>\<open>await\<close>: the GET is issued.
\<close>

definition fetchUsageStats_call :: "state \<Rightarrow> state" where
  "fetchUsageStats_call s = s\<lparr>requests := requests s @ [GET ''http://localhost:8000/usage-stats'']\<rparr>"

text \<open>The \<^verbatim>\<open>catch\<close> block of \<^verbatim>\<open>fetchUsageStats\<close>.\<close>

definition usage_catch :: "state \<Rightarrow> state" where
  "usage_catch s = s\<lparr>console := console s @ [''Failed to fetch usage stats:'']\<rparr>"

text \<open>
  The rest of \<^verbatim>\<open>fetchUsageStats\<close>, once the response is there. Whatever is thrown inside
  the \<^verbatim>\<open>try\<close> ends in the \<^verbatim>\<open>catch\<close> block, so the function itself never throws.
\<close>

definition fetchUsageStats_resume :: "response \<Rightarrow> state \<Rightarrow> state" where
  "fetchUsageStats_resume r s =
     (case r of
        Rejected \<Rightarrow> usage_catch s
      | Json result \<Rightarrow>
          (case get_prop result ''success'' of
             Inl e \<Rightarrow> usage_catch s
           | Inr ok \<Rightarrow>
               if truthy ok then
                 (case get_prop result ''usage'' of
                    Inl e \<Rightarrow> usage_catch s
                  | Inr u \<Rightarrow> s\<lparr>usageStats := u\<rparr>)
               else s))"

section \<open>Analysis orchestrator\<close>

text \<open>
  \<^verbatim>\<open>analyzeSpot(endpoint)\<close> up to its first \<^verbatim>\<open>await\<close>. Every call site passes the
  endpoint, so the default value of the parameter is never used.
\<close>

definition analyzeSpot_call :: "string \<Rightarrow> state \<Rightarrow> state sched" where
  "analyzeSpot_call endpoint s =
     (case selectedFile s of
        None \<Rightarrow> Finished s
      | Some f \<Rightarrow>
          Waiting AnalyzeFetch
            (s\<lparr>loading := True, error := JNull,
               requests := requests s @ [POST (''http://localhost:8000/'' @ endpoint) f]\<rparr>))"

text \<open>The \<^verbatim>\<open>catch\<close> and \<^verbatim>\<open>finally\<close> blocks of \<^verbatim>\<open>analyzeSpot\<close>.\<close>

definition analyze_catch :: "state \<Rightarrow> state" where
  "analyze_catch s =
     s\<lparr>console := console s @ [''Analysis error:''],
       error := JStr ''Failed to analyze image. Please check your connection and try again.''\<rparr>"

definition analyze_finally :: "state \<Rightarrow> state" where
  "analyze_finally s = s\<lparr>loading := False\<rparr>"

text \<open>
  \<^verbatim>\<open>analyzeSpot\<close> from the response of its POST on. On success it records the
  recommendation and the provider, calls \<^verbatim>\<open>fetchUsageStats\<close> and waits for it
  (\<^verbatim>\<open>await fetchUsageStats()\<close>); otherwise it sets the error cell and runs
  \<^verbatim>\<open>finally\<close>.
\<close>

definition analyzeSpot_resume :: "response \<Rightarrow> state \<Rightarrow> state sched" where
  "analyzeSpot_resume r s =
     (case r of
        Rejected \<Rightarrow> Finished (analyze_finally (analyze_catch s))
      | Json result \<Rightarrow>
          (case get_prop result ''success'' of
             Inl e \<Rightarrow> Finished (analyze_finally (analyze_catch s))
           | Inr ok \<Rightarrow>
               if truthy ok then
                 (case get_prop result ''recommendation'' of
                    Inl e \<Rightarrow> Finished (analyze_finally (analyze_catch s))
                  | Inr recommendation \<Rightarrow>
                      (case get_prop result ''provider'' of
                         Inl e \<Rightarrow>
                           Finished (analyze_finally (analyze_catch (s\<lparr>analysis := recommendation\<rparr>)))
                       | Inr p \<Rightarrow>
                           Waiting AnalyzeUsage
                             (fetchUsageStats_call (s\<lparr>analysis := recommendation, provider := p\<rparr>))))
               else
                 (case get_prop result ''error'' of
                    Inl e \<Rightarrow> Finished (analyze_finally (analyze_catch s))
                  | Inr msg \<Rightarrow>
                      Finished (analyze_finally (s\<lparr>error := js_or msg (JStr ''Analysis failed'')\<rparr>)))))"

text \<open>
  The end of a successful \<^verbatim>\<open>analyzeSpot\<close>: the awaited \<^verbatim>\<open>fetchUsageStats\<close> finishes
  with the response of its GET, then \<^verbatim>\<open>finally\<close> runs.
\<close>

definition analyzeSpot_usage_done :: "response \<Rightarrow> state \<Rightarrow> state" where
  "analyzeSpot_usage_done u s = analyze_finally (fetchUsageStats_resume u s)"

text \<open>
  One whole invocation of \<^verbatim>\<open>analyzeSpot\<close> with no other handler in between: \<open>r\<close>
  answers the POST, and \<open>u\<close> answers the usage GET where one is issued.
\<close>

definition analyzeSpot :: "string \<Rightarrow> response \<Rightarrow> response \<Rightarrow> state \<Rightarrow> state" where
  "analyzeSpot endpoint r u s =
     (case analyzeSpot_call endpoint s of
        Finished s1 \<Rightarrow> s1
      | Waiting t1 s1 \<Rightarrow>
          (case analyzeSpot_resume r s1 of
             Finished s2 \<Rightarrow> s2
           | Waiting t2 s2 \<Rightarrow> analyzeSpot_usage_done u s2))"

section \<open>The effects of a segment, in order\<close>

text \<open>
  State passing keeps what a synchronous segment leaves, not the order in which it
  acts. For the order, the segment of \<^verbatim>\<open>analyzeSpot\<close> that runs on the response of its
  POST is also given as the list of its effects, first to last: calls of the setters,
  of \<^verbatim>\<open>fetch\<close> and of \<^verbatim>\<open>console.error\<close>.
\<close>

datatype action =
    SetAnalysis jsval
  | SetProvider jsval
  | SetError jsval
  | SetLoading bool
  | SetUsageStats jsval
  | Fetch request
  | ConsoleError string

fun perform :: "action \<Rightarrow> state \<Rightarrow> state" where
  "perform (SetAnalysis v) s = s\<lparr>analysis := v\<rparr>"
| "perform (SetProvider v) s = s\<lparr>provider := v\<rparr>"
| "perform (SetError v) s = s\<lparr>error := v\<rparr>"
| "perform (SetLoading b) s = s\<lparr>loading := b\<rparr>"
| "perform (SetUsageStats v) s = s\<lparr>usageStats := v\<rparr>"
| "perform (Fetch q) s = s\<lparr>requests := requests s @ [q]\<rparr>"
| "perform (ConsoleError m) s = s\<lparr>console := console s @ [m]\<rparr>"

text \<open>The \<^verbatim>\<open>catch\<close> block followed by the \<^verbatim>\<open>finally\<close> block of \<^verbatim>\<open>analyzeSpot\<close>.\<close>

definition analyze_catch_actions :: "action list" where
  "analyze_catch_actions =
     [ConsoleError ''Analysis error:'',
      SetError (JStr ''Failed to analyze image. Please check your connection and try again.''),
      SetLoading False]"

text \<open>
  Lines 69 to 84 of the component, up to the \<^verbatim>\<open>await\<close> of line 75 on the success
  branch: \<^verbatim>\<open>setAnalysis\<close>, \<^verbatim>\<open>setProvider\<close>, then the \<^verbatim>\<open>fetch\<close> with which
  \<^verbatim>\<open>fetchUsageStats\<close> begins.
\<close>

definition analyzeSpot_resume_actions :: "response \<Rightarrow> action list" where
  "analyzeSpot_resume_actions r =
     (case r of
        Rejected \<Rightarrow> analyze_catch_actions
      | Json result \<Rightarrow>
          (case get_prop result ''success'' of
             Inl e \<Rightarrow> analyze_catch_actions
           | Inr ok \<Rightarrow>
               if truthy ok then
                 (case get_prop result ''recommendation'' of
                    Inl e \<Rightarrow> analyze_catch_actions
                  | Inr recommendation \<Rightarrow>
                      (case get_prop result ''provider'' of
                         Inl e \<Rightarrow> SetAnalysis recommendation # analyze_catch_actions
                       | Inr p \<Rightarrow>
                           [SetAnalysis recommendation, SetProvider p,
                            Fetch (GET ''http://localhost:8000/usage-stats'')]))
               else
                 (case get_prop result ''error'' of
                    Inl e \<Rightarrow> analyze_catch_actions
                  | Inr msg \<Rightarrow>
                      [SetError (js_or msg (JStr ''Analysis failed'')), SetLoading False])))"

section \<open>What the rendering offers\<close>

text \<open>
  The render reads the cells. It can fail in two ways, and the component sits under no
  error boundary, so a failed render unmounts it: evaluating the JSX throws a
  \<^verbatim>\<open>TypeError\<close>, or React refuses a plain object among the children of an element.
\<close>

datatype crash = RenderTypeError | InvalidChild

text \<open>
  What React accepts as a child: strings and numbers are shown, booleans,
  \<^verbatim>\<open>null\<close> and \<^verbatim>\<open>undefined\<close> show nothing, an array is taken item by item; an object
  that is no element is refused, and parsed JSON holds no element.
\<close>

fun renderable :: "jsval \<Rightarrow> bool" where
  "renderable (JObj kvs) = False"
| "renderable (JArr vs) = list_all renderable vs"
| "renderable JUndefined = True"
| "renderable JNull = True"
| "renderable (JBool b) = True"
| "renderable (JNum q) = True"
| "renderable (JInf neg) = True"
| "renderable (JStr s) = True"

text \<open>Only a number has \<^verbatim>\<open>toFixed\<close>.\<close>

fun is_number :: "jsval \<Rightarrow> bool" where
  "is_number (JNum q) = True"
| "is_number (JInf neg) = True"
| "is_number JUndefined = False"
| "is_number JNull = False"
| "is_number (JBool b) = False"
| "is_number (JStr s) = False"
| "is_number (JArr vs) = False"
| "is_number (JObj kvs) = False"

text \<open>
  The usage widget, under \<^verbatim>\<open>usageStats &&\<close>: it reads \<^verbatim>\<open>usageStats.daily.used\<close>,
  \<^verbatim>\<open>usageStats.daily.limit\<close> and calls \<^verbatim>\<open>usageStats.daily.percentage.toFixed(1)\<close>, then
  shows the first two as children.
\<close>

record usage_view =
  used_shown :: jsval
  limit_shown :: jsval
  percentage_shown :: jsval

definition render_usage :: "jsval \<Rightarrow> crash + usage_view option" where
  "render_usage u =
     (if truthy u then
        (case get_prop u ''daily'' of
           Inl e \<Rightarrow> Inl RenderTypeError
         | Inr daily \<Rightarrow>
             (case get_prop daily ''used'' of
                Inl e \<Rightarrow> Inl RenderTypeError
              | Inr used \<Rightarrow>
                  (case get_prop daily ''limit'' of
                     Inl e \<Rightarrow> Inl RenderTypeError
                   | Inr limit \<Rightarrow>
                       (case get_prop daily ''percentage'' of
                          Inl e \<Rightarrow> Inl RenderTypeError
                        | Inr percentage \<Rightarrow>
                            if is_number percentage then
                              if renderable used then
                                if renderable limit then
                                  Inr (Some \<lparr>used_shown = used, limit_shown = limit,
                                             percentage_shown = percentage\<rparr>)
                                else Inl InvalidChild
                              else Inl InvalidChild
                            else Inl RenderTypeError))))
      else Inr None)"

text \<open>
  The three analysis buttons are rendered only under \<^verbatim>\<open>selectedImage &&\<close>, each with
  \<^verbatim>\<open>disabled={loading}\<close> and an \<^verbatim>\<open>onClick\<close> that calls \<^verbatim>\<open>analyzeSpot\<close> with its
  endpoint.
\<close>

record button =
  endpoint :: string
  disabled :: bool

text \<open>The result panel: the placeholder, the spinner, or the analysis as a child.\<close>

datatype panel = Placeholder | Spinner | Result jsval

text \<open>
  What a render that succeeds shows: the usage widget, the error banner (under
  \<^verbatim>\<open>error &&\<close>), the analysis buttons, whether the preview with its reset button is there,
  the provider badge (under \<^verbatim>\<open>provider &&\<close>) and the result panel.
\<close>

record view =
  usage_shown :: "usage_view option"
  error_shown :: "jsval option"
  buttons_shown :: "button list"
  reset_shown :: bool
  provider_shown :: "jsval option"
  panel_shown :: panel

definition render :: "state \<Rightarrow> crash + view" where
  "render s =
     (case render_usage (usageStats s) of
        Inl c \<Rightarrow> Inl c
      | Inr w \<Rightarrow>
          if truthy (error s) \<and> \<not> renderable (error s) then Inl InvalidChild
          else if truthy (provider s) \<and> \<not> renderable (provider s) then Inl InvalidChild
          else if truthy (analysis s) \<and> \<not> loading s \<and> \<not> renderable (analysis s)
            then Inl InvalidChild
          else
            Inr \<lparr>usage_shown = w,
                 error_shown = (if truthy (error s) then Some (error s) else None),
                 buttons_shown =
                   (if truthy (selectedImage s) then
                      [\<lparr>endpoint = ''analyze-smart'', disabled = loading s\<rparr>,
                       \<lparr>endpoint = ''analyze-gemini'', disabled = loading s\<rparr>,
                       \<lparr>endpoint = ''analyze-hf'', disabled = loading s\<rparr>]
                    else []),
                 reset_shown = truthy (selectedImage s),
                 provider_shown = (if truthy (provider s) then Some (provider s) else None),
                 panel_shown =
                   (if \<not> truthy (analysis s) \<and> \<not> loading s then Placeholder
                    else if loading s then Spinner
                    else Result (analysis s))\<rparr>)"

text \<open>The analysis buttons on the page: none when the render has failed.\<close>

definition analyze_buttons :: "state \<Rightarrow> button list" where
  "analyze_buttons s = (case render s of Inl c \<Rightarrow> [] | Inr v \<Rightarrow> buttons_shown v)"

text \<open>
  A click on the button for an endpoint: the browser delivers no click to a disabled
  button, and there is nothing to click where the button is not rendered.
\<close>

definition click_analyze :: "string \<Rightarrow> state \<Rightarrow> state sched" where
  "click_analyze ep s =
     (if \<lparr>endpoint = ep, disabled = False\<rparr> \<in> set (analyze_buttons s)
      then analyzeSpot_call ep s else Finished s)"

text \<open>
  The button that calls \<^verbatim>\<open>resetAnalyzer\<close> sits on the preview, which is rendered only
  when \<^verbatim>\<open>selectedImage\<close> is truthy.
\<close>

definition click_reset :: "state \<Rightarrow> state" where
  "click_reset s =
     (case render s of
        Inl c \<Rightarrow> s
      | Inr v \<Rightarrow> if reset_shown v then resetAnalyzer s else s)"

section \<open>Sessions\<close>

text \<open>
  A session is the state of the component together with the continuations that are
  scheduled. An event is something the user or the environment does; a completion
  event is possible only while its continuation is scheduled. The session follows the
  component while it is mounted: once a render has failed there is no page to act on,
  and no further step.
\<close>

record session =
  ui :: state
  pending :: "task list"

fun settle :: "state sched \<Rightarrow> task list \<Rightarrow> session" where
  "settle (Finished s) ts = \<lparr>ui = s, pending = ts\<rparr>"
| "settle (Waiting t s) ts = \<lparr>ui = s, pending = ts @ [t]\<rparr>"

datatype event =
    FileChosen "jsfile option"
  | ReaderLoaded jsval
  | ClickAnalyze string
  | ClickReset
  | UsageResponse response
  | AnalyzeResponse response
  | AnalyzeUsageResponse response

fun deliver :: "event \<Rightarrow> session \<Rightarrow> session option" where
  "deliver (FileChosen chosen) x = Some (settle (handleImageUpload chosen (ui x)) (pending x))"
| "deliver (ReaderLoaded result) x =
     (if FileRead \<in> set (pending x)
      then Some \<lparr>ui = reader_onload result (ui x), pending = remove1 FileRead (pending x)\<rparr>
      else None)"
| "deliver (ClickAnalyze ep) x = Some (settle (click_analyze ep (ui x)) (pending x))"
| "deliver ClickReset x = Some \<lparr>ui = click_reset (ui x), pending = pending x\<rparr>"
| "deliver (UsageResponse r) x =
     (if UsageFetch \<in> set (pending x)
      then Some \<lparr>ui = fetchUsageStats_resume r (ui x), pending = remove1 UsageFetch (pending x)\<rparr>
      else None)"
| "deliver (AnalyzeResponse r) x =
     (if AnalyzeFetch \<in> set (pending x)
      then Some (settle (analyzeSpot_resume r (ui x)) (remove1 AnalyzeFetch (pending x)))
      else None)"
| "deliver (AnalyzeUsageResponse r) x =
     (if AnalyzeUsage \<in> set (pending x)
      then Some \<lparr>ui = analyzeSpot_usage_done r (ui x), pending = remove1 AnalyzeUsage (pending x)\<rparr>
      else None)"

definition step :: "event \<Rightarrow> session \<Rightarrow> session option" where
  "step e x = (case render (ui x) of Inl c \<Rightarrow> None | Inr v \<Rightarrow> deliver e x)"

fun exec :: "event list \<Rightarrow> session \<Rightarrow> session option" where
  "exec [] x = Some x"
| "exec (e # es) x = (case step e x of None \<Rightarrow> None | Some y \<Rightarrow> exec es y)"

text \<open>
  The session after the first render: the effect that runs on mount has called
  \<^verbatim>\<open>fetchUsageStats\<close>.
\<close>

definition mounted :: session where
  "mounted = \<lparr>ui = fetchUsageStats_call initial_state, pending = [UsageFetch]\<rparr>"

section \<open>Sample data\<close>

definition png :: jsfile where
  "png = \<lparr>ftype = ''image/png'', fsize = 2048\<rparr>"

definition preview :: jsval where
  "preview = JStr ''data:image/png;base64,iVBORw0KGgo=''"

definition reeds :: jsval where
  "reeds = JObj [(''success'', JBool True), (''recommendation'', JStr ''Cast near the reeds''),
                 (''provider'', JStr ''gemini'')]"

definition quota :: jsval where
  "quota = JObj [(''success'', JBool False), (''error'', JStr ''quota exceeded'')]"

definition snapshot :: jsval where
  "snapshot = JObj [(''daily'', JObj [(''used'', JNum 5), (''limit'', JNum 25),
                                       (''percentage'', JNum 20)])]"

text \<open>A state in which a result is displayed: a file chosen and read, one analysis done.\<close>

definition shown :: state where
  "shown =
     initial_state\<lparr>selectedImage := preview, selectedFile := Some png,
                   analysis := JStr ''Cast near the reeds'', provider := JStr ''gemini'',
                   usageStats := snapshot\<rparr>"

section \<open>Auxiliary facts\<close>

text \<open>Reading a property throws exactly on \<^verbatim>\<open>undefined\<close> and \<^verbatim>\<open>null\<close>, whatever the name.\<close>

lemma get_prop_throws: "get_prop v k = Inl e \<longleftrightarrow> v = JUndefined \<or> v = JNull"
  by (cases v; cases e; simp)

text \<open>The rest of \<^verbatim>\<open>fetchUsageStats\<close> writes the usage cell and the console only.\<close>

lemma fetchUsageStats_resume_frame:
  "selectedImage (fetchUsageStats_resume u s) = selectedImage s"
  "selectedFile (fetchUsageStats_resume u s) = selectedFile s"
  "analysis (fetchUsageStats_resume u s) = analysis s"
  "loading (fetchUsageStats_resume u s) = loading s"
  "error (fetchUsageStats_resume u s) = error s"
  "provider (fetchUsageStats_resume u s) = provider s"
  "fileInputValue (fetchUsageStats_resume u s) = fileInputValue s"
  "requests (fetchUsageStats_resume u s) = requests s"
  by (simp_all add: fetchUsageStats_resume_def usage_catch_def split: response.splits sum.splits)

text \<open>
  Whole invocations of \<^verbatim>\<open>analyzeSpot\<close> with a file selected, by what answers the POST:
  a body with truthy \<^verbatim>\<open>success\<close>, a body with falsy \<^verbatim>\<open>success\<close>, a rejection.
\<close>

lemma run_accepted:
  assumes "selectedFile s = Some f"
    and "get_prop result ''success'' = Inr ok" and "truthy ok"
    and "get_prop result ''recommendation'' = Inr rc"
    and "get_prop result ''provider'' = Inr p"
  shows "analyzeSpot ep (Json result) u s =
           analyze_finally (fetchUsageStats_resume u (fetchUsageStats_call
             (s\<lparr>loading := True, error := JNull,
                requests := requests s @ [POST (''http://localhost:8000/'' @ ep) f],
                analysis := rc, provider := p\<rparr>)))"
  using assms
  by (simp add: analyzeSpot_def analyzeSpot_call_def analyzeSpot_resume_def analyzeSpot_usage_done_def)

lemma run_refused:
  assumes "selectedFile s = Some f"
    and "get_prop result ''success'' = Inr ok" and "\<not> truthy ok"
    and "get_prop result ''error'' = Inr msg"
  shows "analyzeSpot ep (Json result) u s =
           s\<lparr>loading := False, error := js_or msg (JStr ''Analysis failed''),
             requests := requests s @ [POST (''http://localhost:8000/'' @ ep) f]\<rparr>"
  using assms
  by (simp add: analyzeSpot_def analyzeSpot_call_def analyzeSpot_resume_def analyze_finally_def)

lemma run_rejected:
  assumes "selectedFile s = Some f"
  shows "analyzeSpot ep Rejected u s =
           s\<lparr>loading := False,
             error := JStr ''Failed to analyze image. Please check your connection and try again.'',
             requests := requests s @ [POST (''http://localhost:8000/'' @ ep) f],
             console := console s @ [''Analysis error:'']\<rparr>"
  using assms
  by (simp add: analyzeSpot_def analyzeSpot_call_def analyzeSpot_resume_def analyze_finally_def
      analyze_catch_def)

text \<open>The effect list of the segment leaves the state that the segment leaves.\<close>

lemma analyzeSpot_resume_performs:
  "state_of (analyzeSpot_resume r s) = fold perform (analyzeSpot_resume_actions r) s"
  by (simp add: analyzeSpot_resume_def analyzeSpot_resume_actions_def analyze_catch_actions_def
      analyze_catch_def analyze_finally_def fetchUsageStats_call_def
      split: response.splits sum.splits)

text \<open>The render reads the cells only, and the usage widget is its first part.\<close>

lemma render_console: "render (s\<lparr>console := c\<rparr>) = render s"
  by (cases "render_usage (usageStats s)") (simp_all add: render_def)

lemma render_usage_crash: "render_usage (usageStats s) = Inl c \<Longrightarrow> render s = Inl c"
  by (simp add: render_def)

lemma render_error_shown:
  "render s = Inr v \<Longrightarrow> error_shown v = (if truthy (error s) then Some (error s) else None)"
  by (cases "render_usage (usageStats s)") (auto simp add: render_def split: if_splits)

lemma render_buttons_shown:
  "render s = Inr v \<Longrightarrow>
     buttons_shown v =
       (if truthy (selectedImage s) then
          [\<lparr>endpoint = ''analyze-smart'', disabled = loading s\<rparr>,
           \<lparr>endpoint = ''analyze-gemini'', disabled = loading s\<rparr>,
           \<lparr>endpoint = ''analyze-hf'', disabled = loading s\<rparr>]
        else [])"
  by (cases "render_usage (usageStats s)") (auto simp add: render_def split: if_splits)

lemma render_reset_shown: "render s = Inr v \<Longrightarrow> reset_shown v = truthy (selectedImage s)"
  by (cases "render_usage (usageStats s)") (auto simp add: render_def split: if_splits)

text \<open>What React refuses as a child is an object or holds one, and both are truthy.\<close>

lemma unrenderable_truthy: "\<not> renderable v \<Longrightarrow> truthy v"
  by (cases v) simp_all

text \<open>When the render fails, and what the page offers when it does not.\<close>

lemma render_crashes:
  "isl (render s) \<longleftrightarrow>
     isl (render_usage (usageStats s)) \<or> \<not> renderable (error s) \<or> \<not> renderable (provider s)
     \<or> (\<not> loading s \<and> \<not> renderable (analysis s))"
proof (cases "render_usage (usageStats s)")
  case (Inl c)
  then show ?thesis by (simp add: render_def)
next
  case (Inr w)
  then show ?thesis
    using unrenderable_truthy [of "error s"] unrenderable_truthy [of "provider s"]
      unrenderable_truthy [of "analysis s"]
    by (simp add: render_def) blast
qed

lemma step_mounted: "step e x = (if isl (render (ui x)) then None else deliver e x)"
  by (cases "render (ui x)") (simp_all add: step_def)

lemma analyze_buttons_mounted:
  "analyze_buttons s =
     (if isl (render s) then []
      else if truthy (selectedImage s) then
          [\<lparr>endpoint = ''analyze-smart'', disabled = loading s\<rparr>,
           \<lparr>endpoint = ''analyze-gemini'', disabled = loading s\<rparr>,
           \<lparr>endpoint = ''analyze-hf'', disabled = loading s\<rparr>]
      else [])"
  by (cases "render s") (simp_all add: analyze_buttons_def render_buttons_shown)

lemma click_reset_mounted:
  "click_reset s =
     (if isl (render s) then s else if truthy (selectedImage s) then resetAnalyzer s else s)"
  by (cases "render s") (simp_all add: click_reset_def render_reset_shown)

text \<open>The equations that evaluate a session on given events.\<close>

lemmas run_simps = step_mounted render_crashes analyze_buttons_mounted click_reset_mounted
  render_usage_def mounted_def handleImageUpload_def reader_onload_def click_analyze_def
  resetAnalyzer_def analyzeSpot_call_def analyzeSpot_resume_def analyzeSpot_usage_done_def
  analyze_finally_def fetchUsageStats_call_def fetchUsageStats_resume_def usage_catch_def
  js_or_def png_def preview_def reeds_def quota_def initial_state_def

section \<open>Validation of the chosen file\<close>

text \<open>
  C8. Given a file whose MIME type does not start with \<^verbatim>\<open>image/\<close>, the upload handler
  reports the validation error ``Please select a valid image file'' in the error cell,
  schedules nothing, and changes no other part of the state: the selected file, the
  preview, the analysis and the provider are what they were.
\<close>

theorem handleImageUpload_not_image:
  assumes "\<not> prefix ''image/'' (ftype f)"
  shows "handleImageUpload (Some f) s =
           Finished (s\<lparr>error := JStr ''Please select a valid image file''\<rparr>)
         \<and> selectedFile (state_of (handleImageUpload (Some f) s)) = selectedFile s
         \<and> selectedImage (state_of (handleImageUpload (Some f) s)) = selectedImage s
         \<and> analysis (state_of (handleImageUpload (Some f) s)) = analysis s
         \<and> provider (state_of (handleImageUpload (Some f) s)) = provider s"
  using assms by (simp add: handleImageUpload_def)

theorem handleImageUpload_not_image_witness:
  "\<not> prefix ''image/'' ''text/plain''
   \<and> handleImageUpload (Some \<lparr>ftype = ''text/plain'', fsize = 12\<rparr>)
       (initial_state\<lparr>selectedFile := Some \<lparr>ftype = ''image/png'', fsize = 2048\<rparr>,
                      selectedImage := JStr ''data:image/png;base64,AAAA'',
                      analysis := JStr ''Cast near the reeds''\<rparr>)
     = Finished (initial_state\<lparr>selectedFile := Some \<lparr>ftype = ''image/png'', fsize = 2048\<rparr>,
                      selectedImage := JStr ''data:image/png;base64,AAAA'',
                      analysis := JStr ''Cast near the reeds'',
                      error := JStr ''Please select a valid image file''\<rparr>)"
  using handleImageUpload_not_image
    [of "\<lparr>ftype = ''text/plain'', fsize = 12\<rparr>"
        "initial_state\<lparr>selectedFile := Some \<lparr>ftype = ''image/png'', fsize = 2048\<rparr>,
                      selectedImage := JStr ''data:image/png;base64,AAAA'',
                      analysis := JStr ''Cast near the reeds''\<rparr>"]
  by (simp add: initial_state_def)

text \<open>
  C9. Given a file with an image MIME type: at 10,485,761 bytes or more the upload
  handler reports ``Image too large. Please select an image under 10MB'' and stages
  nothing (the selected file stays, no read is scheduled); at 10,485,760 bytes or
  less the file passes, is stored as the selected file and handed to the reader.
\<close>

theorem handleImageUpload_size_limit:
  assumes "prefix ''image/'' (ftype f)"
  shows "(10485761 \<le> fsize f \<longrightarrow>
            handleImageUpload (Some f) s =
              Finished (s\<lparr>error := JStr ''Image too large. Please select an image under 10MB''\<rparr>)
            \<and> selectedFile (state_of (handleImageUpload (Some f) s)) = selectedFile s)
         \<and> (fsize f \<le> 10485760 \<longrightarrow>
            handleImageUpload (Some f) s =
              Waiting FileRead (s\<lparr>error := JNull, selectedFile := Some f\<rparr>))"
  using assms by (simp add: handleImageUpload_def)

theorem handleImageUpload_size_limit_witness:
  "prefix ''image/'' (ftype \<lparr>ftype = ''image/jpeg'', fsize = 10485761\<rparr>)
   \<and> handleImageUpload (Some \<lparr>ftype = ''image/jpeg'', fsize = 10485761\<rparr>) shown =
       Finished (shown\<lparr>error := JStr ''Image too large. Please select an image under 10MB''\<rparr>)
   \<and> prefix ''image/'' (ftype \<lparr>ftype = ''image/jpeg'', fsize = 10485760\<rparr>)
   \<and> handleImageUpload (Some \<lparr>ftype = ''image/jpeg'', fsize = 10485760\<rparr>) shown =
       Waiting FileRead
         (shown\<lparr>error := JNull, selectedFile := Some \<lparr>ftype = ''image/jpeg'', fsize = 10485760\<rparr>\<rparr>)"
  using handleImageUpload_size_limit [of "\<lparr>ftype = ''image/jpeg'', fsize = 10485761\<rparr>" shown]
        handleImageUpload_size_limit [of "\<lparr>ftype = ''image/jpeg'', fsize = 10485760\<rparr>" shown]
  by simp

section \<open>A new image and the previous result\<close>

text \<open>
  C5. A valid file is chosen while a result is displayed, and the reader delivers its
  preview. The error cell is null, the new file and preview are installed and the
  recommendation text is cleared, but the provider of the previous result is still
  there: only \<^verbatim>\<open>resetAnalyzer\<close> calls \<^verbatim>\<open>setProvider('')\<close>, the upload path does not.
\<close>

theorem upload_keeps_provider:
  "handleImageUpload (Some \<lparr>ftype = ''image/jpeg'', fsize = 4096\<rparr>) shown =
     Waiting FileRead
       (shown\<lparr>error := JNull, selectedFile := Some \<lparr>ftype = ''image/jpeg'', fsize = 4096\<rparr>\<rparr>)
   \<and> reader_onload (JStr ''data:image/jpeg;base64,AAAA'')
        (state_of (handleImageUpload (Some \<lparr>ftype = ''image/jpeg'', fsize = 4096\<rparr>) shown)) =
      shown\<lparr>error := JNull, selectedFile := Some \<lparr>ftype = ''image/jpeg'', fsize = 4096\<rparr>,
             selectedImage := JStr ''data:image/jpeg;base64,AAAA'', analysis := JNull\<rparr>
   \<and> provider (reader_onload (JStr ''data:image/jpeg;base64,AAAA'')
        (state_of (handleImageUpload (Some \<lparr>ftype = ''image/jpeg'', fsize = 4096\<rparr>) shown))) =
      JStr ''gemini''
   \<and> provider (resetAnalyzer shown) = JStr []"
  by (simp add: handleImageUpload_def reader_onload_def resetAnalyzer_def shown_def initial_state_def)

section \<open>Reset\<close>

text \<open>
  C6, as claimed: from every reachable state, one that is loading included, reset yields
  a state equivalent to the initial one. It does not from a loading state:
  \<^verbatim>\<open>resetAnalyzer\<close> never calls \<^verbatim>\<open>setLoading\<close>, so after choosing a file, clicking an
  analysis button and clicking reset, the busy flag is still up, while it is down in
  the initial state.
\<close>

theorem reset_while_loading_counterexample:
  "exec [FileChosen (Some png), ReaderLoaded preview, ClickAnalyze ''analyze-smart'', ClickReset]
     mounted =
     Some \<lparr>ui = initial_state\<lparr>loading := True,
               requests := [GET ''http://localhost:8000/usage-stats'',
                            POST ''http://localhost:8000/analyze-smart'' png]\<rparr>,
           pending = [UsageFetch, AnalyzeFetch]\<rparr>
   \<and> loading (resetAnalyzer
        (initial_state\<lparr>selectedFile := Some png, selectedImage := preview, loading := True,
               requests := [GET ''http://localhost:8000/usage-stats'',
                            POST ''http://localhost:8000/analyze-smart'' png]\<rparr>))
   \<and> \<not> loading initial_state"
  by (simp add: run_simps)

text \<open>
  C6, amended. From any state, \<^verbatim>\<open>resetAnalyzer\<close> leaves the staged image (file and
  preview), the analysis result (text and provider) and the error as they are in the
  initial state, empties the file input where there is one, and a second reset changes
  nothing more. It writes no other cell: the busy flag and the usage snapshot are what
  they were, so the state it yields is the initial one up to the busy flag, the usage
  snapshot and the two logs.
\<close>

theorem resetAnalyzer_clears:
  "selectedImage (resetAnalyzer s) = selectedImage initial_state
   \<and> selectedFile (resetAnalyzer s) = selectedFile initial_state
   \<and> analysis (resetAnalyzer s) = analysis initial_state
   \<and> provider (resetAnalyzer s) = provider initial_state
   \<and> error (resetAnalyzer s) = error initial_state
   \<and> (fileInputValue s \<noteq> None \<longrightarrow>
        fileInputValue (resetAnalyzer s) = fileInputValue initial_state)
   \<and> resetAnalyzer (resetAnalyzer s) = resetAnalyzer s
   \<and> loading (resetAnalyzer s) = loading s
   \<and> usageStats (resetAnalyzer s) = usageStats s
   \<and> (fileInputValue s \<noteq> None \<longrightarrow>
        resetAnalyzer s =
          initial_state\<lparr>loading := loading s, usageStats := usageStats s,
                        requests := requests s, console := console s\<rparr>)"
  by (cases s) (auto simp add: resetAnalyzer_def initial_state_def split: option.splits)

theorem resetAnalyzer_clears_witness:
  "fileInputValue (shown\<lparr>loading := True, error := JStr ''old''\<rparr>) \<noteq> None
   \<and> resetAnalyzer (shown\<lparr>loading := True, error := JStr ''old''\<rparr>) =
       initial_state\<lparr>loading := True, usageStats := snapshot\<rparr>
   \<and> resetAnalyzer (resetAnalyzer (shown\<lparr>loading := True, error := JStr ''old''\<rparr>)) =
       resetAnalyzer (shown\<lparr>loading := True, error := JStr ''old''\<rparr>)"
  using resetAnalyzer_clears [of "shown\<lparr>loading := True, error := JStr ''old''\<rparr>"]
  by (simp add: shown_def initial_state_def resetAnalyzer_def)

section \<open>Outcomes of an analysis\<close>

text \<open>
  C3. A file is selected and the endpoint answers with \<^verbatim>\<open>success: true\<close>, a
  recommendation string and a provider string. Whatever the usage request comes back
  with, one whole invocation of \<^verbatim>\<open>analyzeSpot\<close> ends with the analysis cell holding
  that recommendation, the provider cell that provider, the error cell null and the
  busy flag down, and it has issued exactly two requests: its POST and one usage GET.
\<close>

theorem analyzeSpot_success:
  assumes "selectedFile s = Some f"
    and "get_prop result ''success'' = Inr (JBool True)"
    and "get_prop result ''recommendation'' = Inr (JStr recommendation)"
    and "get_prop result ''provider'' = Inr (JStr p)"
  shows "analysis (analyzeSpot ep (Json result) u s) = JStr recommendation
         \<and> provider (analyzeSpot ep (Json result) u s) = JStr p
         \<and> error (analyzeSpot ep (Json result) u s) = JNull
         \<and> loading (analyzeSpot ep (Json result) u s) = False
         \<and> requests (analyzeSpot ep (Json result) u s) =
             requests s @ [POST (''http://localhost:8000/'' @ ep) f,
                           GET ''http://localhost:8000/usage-stats'']"
proof -
  have ok: "truthy (JBool True)" by simp
  note run = run_accepted [OF assms(1) assms(2) ok assms(3) assms(4), of ep u]
  show ?thesis
    by (simp add: run analyze_finally_def fetchUsageStats_resume_frame fetchUsageStats_call_def)
qed

theorem analyzeSpot_success_witness:
  "selectedFile shown = Some png
   \<and> get_prop reeds ''success'' = Inr (JBool True)
   \<and> analysis (analyzeSpot ''analyze-smart'' (Json reeds) Rejected (shown\<lparr>analysis := JNull, error := JStr ''old''\<rparr>)) = JStr ''Cast near the reeds''
   \<and> provider (analyzeSpot ''analyze-smart'' (Json reeds) Rejected (shown\<lparr>analysis := JNull, error := JStr ''old''\<rparr>)) = JStr ''gemini''
   \<and> error (analyzeSpot ''analyze-smart'' (Json reeds) Rejected (shown\<lparr>analysis := JNull, error := JStr ''old''\<rparr>)) = JNull
   \<and> requests (analyzeSpot ''analyze-smart'' (Json reeds) Rejected (shown\<lparr>analysis := JNull, error := JStr ''old''\<rparr>)) =
        [POST ''http://localhost:8000/analyze-smart'' png, GET ''http://localhost:8000/usage-stats'']"
  using analyzeSpot_success [of "shown\<lparr>analysis := JNull, error := JStr ''old''\<rparr>" png reeds
      "''Cast near the reeds''" "''gemini''" "''analyze-smart''" Rejected]
  by (simp add: shown_def reeds_def initial_state_def)


text \<open>
  C4, as claimed: on \<^verbatim>\<open>success: false\<close> the message is the \<^verbatim>\<open>error\<close> field whenever it
  is present, the empty string included. It is not: the code writes
  \<^verbatim>\<open>result.error || 'Analysis failed'\<close>, and the empty string is falsy.
\<close>

theorem analyzeSpot_error_message_counterexample:
  "selectedFile shown = Some png
   \<and> get_prop (JObj [(''success'', JBool False), (''error'', JStr [])]) ''success'' = Inr (JBool False)
   \<and> get_prop (JObj [(''success'', JBool False), (''error'', JStr [])]) ''error'' = Inr (JStr [])
   \<and> error (analyzeSpot ''analyze-smart''
        (Json (JObj [(''success'', JBool False), (''error'', JStr [])])) Rejected shown) =
      JStr ''Analysis failed''
   \<and> error (analyzeSpot ''analyze-smart''
        (Json (JObj [(''success'', JBool False), (''error'', JStr [])])) Rejected shown) \<noteq> JStr []"
  by (simp add: analyzeSpot_def analyzeSpot_call_def analyzeSpot_resume_def analyze_finally_def
      js_or_def shown_def png_def initial_state_def)

text \<open>
  C4, amended. A file is selected and the endpoint answers with \<^verbatim>\<open>success: false\<close>. The
  error cell holds the \<^verbatim>\<open>error\<close> field when that is a non-empty string, and
  ``Analysis failed'' when the field is absent or the empty string; the only request
  issued is the POST (no usage GET), and the busy flag is down.
\<close>

theorem analyzeSpot_error_message:
  assumes "selectedFile s = Some f"
    and "get_prop result ''success'' = Inr (JBool False)"
  shows "(\<forall>m. get_prop result ''error'' = Inr (JStr m) \<and> m \<noteq> [] \<longrightarrow>
            error (analyzeSpot ep (Json result) u s) = JStr m)
         \<and> (get_prop result ''error'' = Inr JUndefined \<or> get_prop result ''error'' = Inr (JStr []) \<longrightarrow>
            error (analyzeSpot ep (Json result) u s) = JStr ''Analysis failed'')
         \<and> requests (analyzeSpot ep (Json result) u s) =
             requests s @ [POST (''http://localhost:8000/'' @ ep) f]
         \<and> loading (analyzeSpot ep (Json result) u s) = False"
proof -
  have no: "\<not> truthy (JBool False)" by simp
  obtain msg where msg: "get_prop result ''error'' = Inr msg"
    using assms(2) by (cases result) simp_all
  note run = run_refused [OF assms(1) assms(2) no msg, of ep u]
  show ?thesis using msg by (auto simp add: run js_or_def)
qed

theorem analyzeSpot_error_message_witness:
  "selectedFile shown = Some png
   \<and> get_prop quota ''success'' = Inr (JBool False)
   \<and> get_prop quota ''error'' = Inr (JStr ''quota exceeded'')
   \<and> error (analyzeSpot ''analyze-hf'' (Json quota) Rejected shown) = JStr ''quota exceeded''
   \<and> get_prop (JObj [(''success'', JBool False)]) ''error'' = Inr JUndefined
   \<and> error (analyzeSpot ''analyze-hf'' (Json (JObj [(''success'', JBool False)])) Rejected shown) =
       JStr ''Analysis failed''
   \<and> requests (analyzeSpot ''analyze-hf'' (Json quota) Rejected shown) =
       [POST ''http://localhost:8000/analyze-hf'' png]"
  using analyzeSpot_error_message [of shown png quota "''analyze-hf'' " Rejected]
        analyzeSpot_error_message [of shown png "JObj [(''success'', JBool False)]" "''analyze-hf'' " Rejected]
  by (simp add: shown_def quota_def initial_state_def)


section \<open>The usage snapshot\<close>

text \<open>
  C10, as claimed: a usage response without a \<^verbatim>\<open>usage\<close> field leaves the snapshot as it
  was. It does not when \<^verbatim>\<open>success\<close> is true: the code tests \<^verbatim>\<open>result.success\<close> only
  and stores \<^verbatim>\<open>result.usage\<close>, here \<^verbatim>\<open>undefined\<close>, over the snapshot.
\<close>

theorem fetchUsageStats_missing_usage_counterexample:
  "get_prop (JObj [(''success'', JBool True)]) ''success'' = Inr (JBool True)
   \<and> get_prop (JObj [(''success'', JBool True)]) ''usage'' = Inr JUndefined
   \<and> usageStats shown = snapshot
   \<and> usageStats (fetchUsageStats_resume (Json (JObj [(''success'', JBool True)])) shown) = JUndefined
   \<and> usageStats (fetchUsageStats_resume (Json (JObj [(''success'', JBool True)])) shown)
       \<noteq> usageStats shown"
  by (simp add: fetchUsageStats_resume_def shown_def snapshot_def initial_state_def)

text \<open>
  C10, amended. When the usage request is rejected or its body is not JSON, when the body
  is \<^verbatim>\<open>null\<close>, and when \<^verbatim>\<open>success\<close> is falsy, the snapshot (or its absence) is left
  as it was and the page renders as it did. When \<^verbatim>\<open>success\<close> is truthy the snapshot
  becomes the \<^verbatim>\<open>usage\<close> property of the body, unchecked: \<^verbatim>\<open>undefined\<close> when the body has
  none. The refresh never writes the error cell, so a page that renders shows the error
  banner it showed before; but when the usage widget cannot display the value now
  stored (a truthy value without \<^verbatim>\<open>daily.used\<close>, \<^verbatim>\<open>daily.limit\<close> and a numeric
  \<^verbatim>\<open>daily.percentage\<close>), the render fails and the component is unmounted.
\<close>

theorem fetchUsageStats_snapshot:
  "(r = Rejected \<or> r = Json JNull
      \<or> (\<exists>result ok. r = Json result \<and> get_prop result ''success'' = Inr ok \<and> \<not> truthy ok)
    \<longrightarrow> usageStats (fetchUsageStats_resume r s) = usageStats s
      \<and> render (fetchUsageStats_resume r s) = render s)
   \<and> (\<forall>result ok. r = Json result \<and> get_prop result ''success'' = Inr ok \<and> truthy ok
    \<longrightarrow> Inr (usageStats (fetchUsageStats_resume r s)) = get_prop result ''usage'')
   \<and> error (fetchUsageStats_resume r s) = error s
   \<and> (\<forall>v. render (fetchUsageStats_resume r s) = Inr v
    \<longrightarrow> error_shown v = (if truthy (error s) then Some (error s) else None))
   \<and> (\<forall>c. render_usage (usageStats (fetchUsageStats_resume r s)) = Inl c
    \<longrightarrow> render (fetchUsageStats_resume r s) = Inl c)"
proof -
  have kept: "usageStats (fetchUsageStats_resume r s) = usageStats s
      \<and> render (fetchUsageStats_resume r s) = render s"
    if "r = Rejected \<or> r = Json JNull
      \<or> (\<exists>result ok. r = Json result \<and> get_prop result ''success'' = Inr ok \<and> \<not> truthy ok)"
    using that
    by (auto simp add: fetchUsageStats_resume_def usage_catch_def render_console)
  have stored: "Inr (usageStats (fetchUsageStats_resume r s)) = get_prop result ''usage''"
    if "r = Json result \<and> get_prop result ''success'' = Inr ok \<and> truthy ok" for result ok
    using that
    by (auto simp add: fetchUsageStats_resume_def get_prop_throws split: sum.splits)
  have cell: "error (fetchUsageStats_resume r s) = error s"
    by (simp add: fetchUsageStats_resume_frame)
  have banner: "error_shown v = (if truthy (error s) then Some (error s) else None)"
    if "render (fetchUsageStats_resume r s) = Inr v" for v
    using render_error_shown [OF that] by (simp add: cell)
  have crash: "render (fetchUsageStats_resume r s) = Inl c"
    if "render_usage (usageStats (fetchUsageStats_resume r s)) = Inl c" for c
    using that by (rule render_usage_crash)
  show ?thesis using kept stored cell banner crash by blast
qed

theorem fetchUsageStats_snapshot_witness:
  "usageStats (fetchUsageStats_resume Rejected shown) = usageStats shown
   \<and> usageStats (fetchUsageStats_resume (Json JNull) shown) = usageStats shown
   \<and> get_prop (JObj [(''success'', JBool False)]) ''success'' = Inr (JBool False)
   \<and> \<not> truthy (JBool False)
   \<and> usageStats (fetchUsageStats_resume (Json (JObj [(''success'', JBool False)])) shown) = usageStats shown
   \<and> get_prop (JObj [(''success'', JBool True), (''usage'', snapshot)]) ''success'' = Inr (JBool True)
   \<and> truthy (JBool True)
   \<and> usageStats (fetchUsageStats_resume (Json (JObj [(''success'', JBool True), (''usage'', snapshot)]))
        initial_state) = snapshot
   \<and> render_usage (usageStats (fetchUsageStats_resume
        (Json (JObj [(''success'', JBool True), (''usage'', JObj [])])) shown)) = Inl RenderTypeError
   \<and> render (fetchUsageStats_resume
        (Json (JObj [(''success'', JBool True), (''usage'', JObj [])])) shown) = Inl RenderTypeError
   \<and> render (fetchUsageStats_resume Rejected shown) = render shown"
  using fetchUsageStats_snapshot [of Rejected shown]
        fetchUsageStats_snapshot [of "Json JNull" shown]
        fetchUsageStats_snapshot [of "Json (JObj [(''success'', JBool False)])" shown]
        fetchUsageStats_snapshot [of "Json (JObj [(''success'', JBool True), (''usage'', snapshot)])" initial_state]
        fetchUsageStats_snapshot [of "Json (JObj [(''success'', JBool True), (''usage'', JObj [])])" shown]
  by (simp add: fetchUsageStats_resume_def usage_catch_def render_console render_usage_def
      snapshot_def shown_def initial_state_def)

section \<open>Order of the analysis and the usage refresh\<close>

text \<open>
  C7, as claimed: the invocation reaches its terminal state without waiting for the
  refresh to complete. It does not: after a successful response the invocation is
  suspended at \<^verbatim>\<open>await fetchUsageStats()\<close> with the busy flag still up, and the flag
  comes down only when the usage request has completed.
\<close>

theorem analyzeSpot_awaits_refresh_counterexample:
  "analyzeSpot_call ''analyze-smart'' shown =
     Waiting AnalyzeFetch
       (shown\<lparr>loading := True, requests := [POST ''http://localhost:8000/analyze-smart'' png]\<rparr>)
   \<and> analyzeSpot_resume (Json reeds)
       (shown\<lparr>loading := True, requests := [POST ''http://localhost:8000/analyze-smart'' png]\<rparr>) =
     Waiting AnalyzeUsage
       (shown\<lparr>loading := True,
              requests := [POST ''http://localhost:8000/analyze-smart'' png,
                           GET ''http://localhost:8000/usage-stats'']\<rparr>)
   \<and> loading (state_of (analyzeSpot_resume (Json reeds)
       (shown\<lparr>loading := True, requests := [POST ''http://localhost:8000/analyze-smart'' png]\<rparr>)))
   \<and> \<not> loading (analyzeSpot_usage_done Rejected (state_of (analyzeSpot_resume (Json reeds)
       (shown\<lparr>loading := True, requests := [POST ''http://localhost:8000/analyze-smart'' png]\<rparr>))))"
  by (simp add: analyzeSpot_call_def analyzeSpot_resume_def analyzeSpot_usage_done_def
      fetchUsageStats_call_def fetchUsageStats_resume_def usage_catch_def analyze_finally_def
      shown_def reeds_def initial_state_def)

text \<open>
  C7, amended. On a response with truthy \<^verbatim>\<open>success\<close>, the effects of the segment are, in
  this order, recording the recommendation, recording the provider, and issuing the
  usage GET: the only \<^verbatim>\<open>fetch\<close> of the segment comes after both setters, and the
  segment does not lower the busy flag. The invocation then waits for the refresh: the
  busy flag is what it was until the usage request completes. Whatever that request
  comes back with, the flag is then down and the analysis, provider and error cells are
  unaffected; the refresh decides the usage snapshot only, and through it whether the
  page still renders: a stored snapshot that the usage widget cannot display makes the
  render fail.
\<close>

theorem analyzeSpot_refresh_order:
  assumes "get_prop result ''success'' = Inr ok" and "truthy ok"
    and "get_prop result ''recommendation'' = Inr rc"
    and "get_prop result ''provider'' = Inr p"
  shows "(\<forall>before q after. analyzeSpot_resume_actions (Json result) = before @ Fetch q # after
            \<longrightarrow> q = GET ''http://localhost:8000/usage-stats''
              \<and> (\<exists>first between. before = first @ SetAnalysis rc # between
                    \<and> SetProvider p \<in> set between)
              \<and> after = [])
         \<and> Fetch (GET ''http://localhost:8000/usage-stats'') \<in> set (analyzeSpot_resume_actions (Json result))
         \<and> SetLoading False \<notin> set (analyzeSpot_resume_actions (Json result))
         \<and> state_of (analyzeSpot_resume (Json result) s) =
             fold perform (analyzeSpot_resume_actions (Json result)) s
         \<and> analyzeSpot_resume (Json result) s =
             Waiting AnalyzeUsage (fetchUsageStats_call (s\<lparr>analysis := rc, provider := p\<rparr>))
         \<and> requests (state_of (analyzeSpot_resume (Json result) s)) =
             requests s @ [GET ''http://localhost:8000/usage-stats'']
         \<and> loading (state_of (analyzeSpot_resume (Json result) s)) = loading s
         \<and> loading (analyzeSpot_usage_done u (state_of (analyzeSpot_resume (Json result) s))) = False
         \<and> analysis (analyzeSpot_usage_done u (state_of (analyzeSpot_resume (Json result) s))) = rc
         \<and> provider (analyzeSpot_usage_done u (state_of (analyzeSpot_resume (Json result) s))) = p
         \<and> error (analyzeSpot_usage_done u (state_of (analyzeSpot_resume (Json result) s))) = error s
         \<and> (\<forall>c. render_usage (usageStats
                (analyzeSpot_usage_done u (state_of (analyzeSpot_resume (Json result) s)))) = Inl c
            \<longrightarrow> render (analyzeSpot_usage_done u (state_of (analyzeSpot_resume (Json result) s))) = Inl c)"
proof -
  have acts: "analyzeSpot_resume_actions (Json result) =
      [SetAnalysis rc, SetProvider p, Fetch (GET ''http://localhost:8000/usage-stats'')]"
    using assms by (simp add: analyzeSpot_resume_actions_def)
  have order: "q = GET ''http://localhost:8000/usage-stats''
      \<and> (\<exists>first between. before = first @ SetAnalysis rc # between \<and> SetProvider p \<in> set between)
      \<and> after = []"
    if "analyzeSpot_resume_actions (Json result) = before @ Fetch q # after" for before q after
  proof -
    from that acts have split:
      "[SetAnalysis rc, SetProvider p, Fetch (GET ''http://localhost:8000/usage-stats'')] =
         before @ Fetch q # after"
      by simp
    then have "before = [SetAnalysis rc, SetProvider p] \<and> q = GET ''http://localhost:8000/usage-stats''
        \<and> after = []"
      by (auto simp add: Cons_eq_append_conv)
    then have "before = [] @ SetAnalysis rc # [SetProvider p] \<and> SetProvider p \<in> set [SetProvider p]
        \<and> q = GET ''http://localhost:8000/usage-stats'' \<and> after = []"
      by simp
    then show ?thesis by blast
  qed
  have cells: "analyzeSpot_resume (Json result) s =
             Waiting AnalyzeUsage (fetchUsageStats_call (s\<lparr>analysis := rc, provider := p\<rparr>))
         \<and> requests (state_of (analyzeSpot_resume (Json result) s)) =
             requests s @ [GET ''http://localhost:8000/usage-stats'']
         \<and> loading (state_of (analyzeSpot_resume (Json result) s)) = loading s
         \<and> loading (analyzeSpot_usage_done u (state_of (analyzeSpot_resume (Json result) s))) = False
         \<and> analysis (analyzeSpot_usage_done u (state_of (analyzeSpot_resume (Json result) s))) = rc
         \<and> provider (analyzeSpot_usage_done u (state_of (analyzeSpot_resume (Json result) s))) = p
         \<and> error (analyzeSpot_usage_done u (state_of (analyzeSpot_resume (Json result) s))) = error s"
    using assms
    by (simp add: analyzeSpot_resume_def analyzeSpot_usage_done_def analyze_finally_def
        fetchUsageStats_resume_frame fetchUsageStats_call_def)
  have crash: "render (analyzeSpot_usage_done u (state_of (analyzeSpot_resume (Json result) s))) = Inl c"
    if "render_usage (usageStats
          (analyzeSpot_usage_done u (state_of (analyzeSpot_resume (Json result) s)))) = Inl c" for c
    using that by (rule render_usage_crash)
  have inlist: "Fetch (GET ''http://localhost:8000/usage-stats'') \<in> set (analyzeSpot_resume_actions (Json result))"
    and noflag: "SetLoading False \<notin> set (analyzeSpot_resume_actions (Json result))"
    by (simp_all add: acts)
  show ?thesis
    using order inlist noflag analyzeSpot_resume_performs [of "Json result" s] cells crash
    by blast
qed

theorem analyzeSpot_refresh_order_witness:
  "get_prop reeds ''success'' = Inr (JBool True) \<and> truthy (JBool True)
   \<and> get_prop reeds ''recommendation'' = Inr (JStr ''Cast near the reeds'')
   \<and> get_prop reeds ''provider'' = Inr (JStr ''gemini'')
   \<and> analyzeSpot_resume_actions (Json reeds) =
       [SetAnalysis (JStr ''Cast near the reeds''), SetProvider (JStr ''gemini''),
        Fetch (GET ''http://localhost:8000/usage-stats'')]
   \<and> analyzeSpot_resume (Json reeds) (initial_state\<lparr>selectedFile := Some png, loading := True\<rparr>) =
       Waiting AnalyzeUsage
         (initial_state\<lparr>selectedFile := Some png, loading := True,
            analysis := JStr ''Cast near the reeds'', provider := JStr ''gemini'',
            requests := [GET ''http://localhost:8000/usage-stats'']\<rparr>)
   \<and> loading (state_of (analyzeSpot_resume (Json reeds)
         (initial_state\<lparr>selectedFile := Some png, loading := True\<rparr>)))
   \<and> \<not> loading (analyzeSpot_usage_done (Json JNull) (state_of (analyzeSpot_resume (Json reeds)
         (initial_state\<lparr>selectedFile := Some png, loading := True\<rparr>))))
   \<and> render (analyzeSpot_usage_done (Json (JObj [(''success'', JBool True), (''usage'', JObj [])]))
         (state_of (analyzeSpot_resume (Json reeds)
            (initial_state\<lparr>selectedFile := Some png, loading := True\<rparr>)))) = Inl RenderTypeError"
proof -
  let ?s = "initial_state\<lparr>selectedFile := Some png, loading := True\<rparr>"
  let ?bad = "Json (JObj [(''success'', JBool True), (''usage'', JObj [])])"
  have a: "get_prop reeds ''success'' = Inr (JBool True)"
    and b: "truthy (JBool True)"
    and c: "get_prop reeds ''recommendation'' = Inr (JStr ''Cast near the reeds'')"
    and d: "get_prop reeds ''provider'' = Inr (JStr ''gemini'')"
    by (simp_all add: reeds_def)
  have acts: "analyzeSpot_resume_actions (Json reeds) =
       [SetAnalysis (JStr ''Cast near the reeds''), SetProvider (JStr ''gemini''),
        Fetch (GET ''http://localhost:8000/usage-stats'')]"
    by (simp add: analyzeSpot_resume_actions_def reeds_def)
  from analyzeSpot_refresh_order [OF a b c d, of ?s "Json JNull"]
  have susp: "analyzeSpot_resume (Json reeds) ?s =
        Waiting AnalyzeUsage
          (fetchUsageStats_call (?s\<lparr>analysis := JStr ''Cast near the reeds'', provider := JStr ''gemini''\<rparr>))"
    and busy: "loading (state_of (analyzeSpot_resume (Json reeds) ?s)) = loading ?s"
    and down: "loading (analyzeSpot_usage_done (Json JNull) (state_of (analyzeSpot_resume (Json reeds) ?s))) = False"
    by blast+
  from analyzeSpot_refresh_order [OF a b c d, of ?s ?bad]
  have crash: "\<forall>c. render_usage (usageStats
                (analyzeSpot_usage_done ?bad (state_of (analyzeSpot_resume (Json reeds) ?s)))) = Inl c
            \<longrightarrow> render (analyzeSpot_usage_done ?bad (state_of (analyzeSpot_resume (Json reeds) ?s))) = Inl c"
    by blast
  have widget: "render_usage (usageStats
        (analyzeSpot_usage_done ?bad (state_of (analyzeSpot_resume (Json reeds) ?s)))) = Inl RenderTypeError"
    by (simp add: susp analyzeSpot_usage_done_def analyze_finally_def fetchUsageStats_resume_def
        render_usage_def)
  have gone: "render (analyzeSpot_usage_done ?bad (state_of (analyzeSpot_resume (Json reeds) ?s))) =
      Inl RenderTypeError"
    using crash widget by blast
  have issued: "fetchUsageStats_call
        (?s\<lparr>analysis := JStr ''Cast near the reeds'', provider := JStr ''gemini''\<rparr>) =
      initial_state\<lparr>selectedFile := Some png, loading := True,
            analysis := JStr ''Cast near the reeds'', provider := JStr ''gemini'',
            requests := [GET ''http://localhost:8000/usage-stats'']\<rparr>"
    by (simp add: fetchUsageStats_call_def initial_state_def)
  show ?thesis
    using a b c d acts susp busy down gone issued by simp
qed

section \<open>Overlapping invocations\<close>

text \<open>
  C1, as claimed: while the busy flag is up, \<^verbatim>\<open>analyzeSpot\<close> itself ignores a second
  invocation. It does not: its only guard is \<^verbatim>\<open>if (!selectedFile) return\<close>. In the
  session reached by choosing a file and clicking once, a direct second call issues a
  second POST.
\<close>

theorem analyzeSpot_while_loading_counterexample:
  "exec [FileChosen (Some png), ReaderLoaded preview, ClickAnalyze ''analyze-smart''] mounted =
     Some \<lparr>ui = initial_state\<lparr>selectedFile := Some png, selectedImage := preview, loading := True,
               requests := [GET ''http://localhost:8000/usage-stats'',
                            POST ''http://localhost:8000/analyze-smart'' png]\<rparr>,
           pending = [UsageFetch, AnalyzeFetch]\<rparr>
   \<and> analyzeSpot_call ''analyze-smart''
        (initial_state\<lparr>selectedFile := Some png, selectedImage := preview, loading := True,
               requests := [GET ''http://localhost:8000/usage-stats'',
                            POST ''http://localhost:8000/analyze-smart'' png]\<rparr>) =
      Waiting AnalyzeFetch
        (initial_state\<lparr>selectedFile := Some png, selectedImage := preview, loading := True,
               requests := [GET ''http://localhost:8000/usage-stats'',
                            POST ''http://localhost:8000/analyze-smart'' png,
                            POST ''http://localhost:8000/analyze-smart'' png]\<rparr>)"
  by (simp add: run_simps)

text \<open>
  C1, amended. While the busy flag is up, every analysis button that is rendered is
  disabled, so an invocation through the rendering issues no request and changes no
  state. The function itself has no busy check: called directly in such a state with a
  file selected, it issues another POST and sets the error cell to null.
\<close>

theorem busy_exclusion_in_rendering:
  assumes "loading s"
  shows "(\<forall>b \<in> set (analyze_buttons s). disabled b)
         \<and> click_analyze ep s = Finished s
         \<and> (\<forall>f. selectedFile s = Some f \<longrightarrow>
              analyzeSpot_call ep s =
                Waiting AnalyzeFetch
                  (s\<lparr>error := JNull,
                     requests := requests s @ [POST (''http://localhost:8000/'' @ ep) f]\<rparr>))"
  using assms
  by (auto simp add: analyze_buttons_mounted click_analyze_def analyzeSpot_call_def)

theorem busy_exclusion_in_rendering_witness:
  "loading (shown\<lparr>loading := True\<rparr>)
   \<and> analyze_buttons (shown\<lparr>loading := True\<rparr>) =
       [\<lparr>endpoint = ''analyze-smart'', disabled = True\<rparr>,
        \<lparr>endpoint = ''analyze-gemini'', disabled = True\<rparr>,
        \<lparr>endpoint = ''analyze-hf'', disabled = True\<rparr>]
   \<and> click_analyze ''analyze-gemini'' (shown\<lparr>loading := True\<rparr>) = Finished (shown\<lparr>loading := True\<rparr>)
   \<and> selectedFile (shown\<lparr>loading := True\<rparr>) = Some png
   \<and> analyzeSpot_call ''analyze-gemini'' (shown\<lparr>loading := True\<rparr>) =
       Waiting AnalyzeFetch
         (shown\<lparr>loading := True, requests := [POST ''http://localhost:8000/analyze-gemini'' png]\<rparr>)"
  using busy_exclusion_in_rendering [of "shown\<lparr>loading := True\<rparr>" "''analyze-gemini''"]
  by (simp add: run_simps shown_def snapshot_def)


section \<open>Result and error together\<close>

text \<open>
  C2, as claimed: in every reachable state at most one of the analysis result and the
  error is current. It is not so: after a successful analysis, a second analysis that
  the service refuses sets the error and leaves the displayed result in place.
\<close>

theorem result_and_error_both_current_counterexample:
  "exec [FileChosen (Some png), ReaderLoaded preview,
         ClickAnalyze ''analyze-smart'', AnalyzeResponse (Json reeds), AnalyzeUsageResponse Rejected,
         ClickAnalyze ''analyze-smart'', AnalyzeResponse (Json quota)] mounted =
     Some \<lparr>ui = initial_state\<lparr>selectedFile := Some png, selectedImage := preview,
               analysis := JStr ''Cast near the reeds'', provider := JStr ''gemini'',
               error := JStr ''quota exceeded'',
               requests := [GET ''http://localhost:8000/usage-stats'',
                            POST ''http://localhost:8000/analyze-smart'' png,
                            GET ''http://localhost:8000/usage-stats'',
                            POST ''http://localhost:8000/analyze-smart'' png],
               console := [''Failed to fetch usage stats:'']\<rparr>,
           pending = [UsageFetch]\<rparr>"
  by (simp add: run_simps)

text \<open>
  C2, amended. The result and the error are separate cells. Both are null in the initial
  state and after a reset. With a file selected, one whole invocation of
  \<^verbatim>\<open>analyzeSpot\<close> that succeeds ends with the recommendation of the response in the
  analysis cell and the error cell null; one that the service refuses, or whose request
  is rejected, ends with a non-empty error and the analysis cell as it was before, so
  that a result displayed earlier and the error are then both current.
\<close>

theorem result_and_error_slots:
  assumes "selectedFile s = Some f" and "get_prop result ''success'' = Inr ok"
  shows "analysis initial_state = JNull \<and> error initial_state = JNull
         \<and> analysis (resetAnalyzer s) = JNull \<and> error (resetAnalyzer s) = JNull
         \<and> (truthy ok \<longrightarrow>
              Inr (analysis (analyzeSpot ep (Json result) u s)) = get_prop result ''recommendation''
              \<and> error (analyzeSpot ep (Json result) u s) = JNull)
         \<and> (\<not> truthy ok \<longrightarrow>
              truthy (error (analyzeSpot ep (Json result) u s))
              \<and> analysis (analyzeSpot ep (Json result) u s) = analysis s)
         \<and> truthy (error (analyzeSpot ep Rejected u s))
         \<and> analysis (analyzeSpot ep Rejected u s) = analysis s"
proof -
  obtain rc p msg where props: "get_prop result ''recommendation'' = Inr rc"
      "get_prop result ''provider'' = Inr p" "get_prop result ''error'' = Inr msg"
    using assms(2) by (cases result) simp_all
  have good: "Inr (analysis (analyzeSpot ep (Json result) u s)) = get_prop result ''recommendation''
      \<and> error (analyzeSpot ep (Json result) u s) = JNull" if "truthy ok"
    by (simp add: run_accepted [OF assms(1) assms(2) that props(1) props(2)]
        props(1) analyze_finally_def fetchUsageStats_resume_frame fetchUsageStats_call_def)
  have bad: "truthy (error (analyzeSpot ep (Json result) u s))
      \<and> analysis (analyzeSpot ep (Json result) u s) = analysis s" if "\<not> truthy ok"
    by (simp add: run_refused [OF assms(1) assms(2) that props(3)] js_or_def)
  have lost: "truthy (error (analyzeSpot ep Rejected u s))
      \<and> analysis (analyzeSpot ep Rejected u s) = analysis s"
    by (simp add: run_rejected [OF assms(1)])
  show ?thesis using good bad lost
    by (simp add: initial_state_def resetAnalyzer_def)
qed

theorem result_and_error_slots_witness:
  "selectedFile shown = Some png \<and> get_prop quota ''success'' = Inr (JBool False)
   \<and> \<not> truthy (JBool False)
   \<and> analysis (analyzeSpot ''analyze-smart'' (Json quota) Rejected shown) = JStr ''Cast near the reeds''
   \<and> truthy (error (analyzeSpot ''analyze-smart'' (Json quota) Rejected shown))
   \<and> get_prop reeds ''success'' = Inr (JBool True) \<and> truthy (JBool True)
   \<and> analysis (analyzeSpot ''analyze-smart'' (Json reeds) Rejected (shown\<lparr>error := JStr ''old''\<rparr>))
       = JStr ''Cast near the reeds''
   \<and> error (analyzeSpot ''analyze-smart'' (Json reeds) Rejected (shown\<lparr>error := JStr ''old''\<rparr>)) = JNull"
  using result_and_error_slots [of shown png quota "JBool False" "''analyze-smart''" Rejected]
        result_and_error_slots [of "shown\<lparr>error := JStr ''old''\<rparr>" png reeds "JBool True" "''analyze-smart''" Rejected]
  by (simp add: shown_def quota_def reeds_def initial_state_def)

end
